theory Spec2Isabelle
  imports Main
begin

section \<open>Values of the validation context\<close>

text \<open>
  The module \<^verbatim>\<open>src/renderer/shared/providers/validation-context.js\<close> holds the
  reducer of the validation ceremony, the decoder of fetched flips and the effect
  that submits the answers when the session is about to end. Exceptions of the
  JavaScript code are values of \<open>js_error\<close>; a function that can throw returns
  \<open>js_error + 'a\<close> with \<open>Inl\<close> for the exception.
\<close>

datatype js_error = TypeError | RlpError | UnhandledActionType string

text \<open>
  What \<^verbatim>\<open>decode\<close> of the \<^verbatim>\<open>rlp\<close> package returns: a Buffer (\<open>RBytes\<close>) or an
  array of such items (\<open>RList\<close>). Bytes are natural numbers below 256.
\<close>

datatype rlp = RBytes "nat list" | RList "rlp list"

text \<open>
  The values the \<^verbatim>\<open>orders\<close> field of a flip can hold after the two nested
  \<^verbatim>\<open>map\<close> calls of \<^verbatim>\<open>decodeFlips\<close>: numbers, Buffers and arrays.
\<close>

datatype js_value = JNum nat | JBuffer "nat list" | JArray "js_value list"

datatype 'a nullable = Null | Val 'a

text \<open>
  The value of an \<^verbatim>\<open>answer\<close> field. \<open>Num\<close> is a finite number (the answer codes
  of \<^verbatim>\<open>AnswerType\<close> are integers), \<open>NonFinite\<close> stands for \<^verbatim>\<open>NaN\<close> and the two
  infinities.
\<close>

datatype answer_value = Undefined | NullAnswer | Num int | NonFinite

definition AnswerType_None :: int where "AnswerType_None = 0"
definition AnswerType_Left :: int where "AnswerType_Left = 1"
definition AnswerType_Right :: int where "AnswerType_Right = 2"
definition AnswerType_Inappropriate :: int where "AnswerType_Inappropriate = 3"

datatype sessionType = Short | Long

section \<open>fromHexString\<close>

text \<open>
  Strings are lists of 8-bit characters, read as the code units 0 to 255. The
  regular expression \<^verbatim>\<open>/.{1,2}/g\<close> cuts the string into pieces of two characters,
  greedily, where \<^verbatim>\<open>.\<close> matches every character but a line terminator;
  \<^verbatim>\<open>match\<close> returns \<^verbatim>\<open>null\<close> when there is no piece, which the empty list stands
  for here.
\<close>

definition lineTerminator :: "char \<Rightarrow> bool" where
  "lineTerminator c = (c = CHR 0x0A \<or> c = CHR 0x0D)"

fun match_pairs :: "string \<Rightarrow> string list" where
  "match_pairs [] = []"
| "match_pairs [c] = (if lineTerminator c then [] else [[c]])"
| "match_pairs (c # d # cs) =
     (if lineTerminator c then match_pairs (d # cs)
      else if lineTerminator d then [c] # match_pairs cs
      else [c, d] # match_pairs cs)"

text \<open>
  \<^verbatim>\<open>parseInt(byte, 16)\<close>: leading white space is skipped, then an optional sign
  and an optional \<^verbatim>\<open>0x\<close> prefix, then the longest run of hexadecimal digits is
  read; \<open>None\<close> is \<^verbatim>\<open>NaN\<close>, the result when that run is empty.
\<close>

definition whiteSpace :: "char \<Rightarrow> bool" where
  "whiteSpace c = (c = CHR 0x09 \<or> c = CHR 0x0A \<or> c = CHR 0x0B \<or> c = CHR 0x0C
                    \<or> c = CHR 0x0D \<or> c = CHR 0x20 \<or> c = CHR 0xA0)"

definition hexDigit :: "char \<Rightarrow> nat option" where
  "hexDigit c =
     (let n = (of_char c :: nat)
      in if 48 \<le> n \<and> n \<le> 57 then Some (n - 48)
         else if 97 \<le> n \<and> n \<le> 102 then Some (n - 87)
         else if 65 \<le> n \<and> n \<le> 70 then Some (n - 55)
         else None)"

definition digitsValue :: "string \<Rightarrow> nat" where
  "digitsValue z =
     foldl (\<lambda>a c. 16 * a + (case hexDigit c of None \<Rightarrow> 0 | Some v \<Rightarrow> v)) 0 z"

definition parseInt16 :: "string \<Rightarrow> int option" where
  "parseInt16 s =
     (let t = dropWhile whiteSpace s;
          negative = (take 1 t = ''-'');
          u = (if take 1 t = ''-'' \<or> take 1 t = ''+'' then drop 1 t else t);
          v = (if take 2 u = ''0x'' \<or> take 2 u = ''0X'' then drop 2 u else u);
          z = takeWhile (\<lambda>c. hexDigit c \<noteq> None) v
      in if z = [] then None
         else Some ((if negative then - 1 else 1) * int (digitsValue z)))"

text \<open>Storing a number into a \<^verbatim>\<open>Uint8Array\<close>: \<^verbatim>\<open>NaN\<close> becomes 0, others wrap modulo 256.\<close>

definition toUint8 :: "int option \<Rightarrow> nat" where
  "toUint8 v = (case v of None \<Rightarrow> 0 | Some n \<Rightarrow> nat (n mod 256))"

definition fromHexString :: "string \<Rightarrow> js_error + nat list" where
  "fromHexString hexString =
     (case match_pairs hexString of
        [] \<Rightarrow> Inl TypeError
      | ms \<Rightarrow> Inr (map (\<lambda>byte. toUint8 (parseInt16 byte)) ms))"

section \<open>decodeFlips\<close>

record hashEntry =
  req_hash :: string
  req_ready :: bool

record hexEntry =
  hex_hash :: string
  hex :: string

text \<open>
  A flip is a JavaScript object; each field is \<open>None\<close> when the object has no
  such key. The flips built by \<^verbatim>\<open>decodeFlips\<close> have all five keys, the object
  built by the \<^verbatim>\<open>ANSWER\<close> case from a missing flip has only \<^verbatim>\<open>answer\<close>.
\<close>

record flip =
  hash :: "string option"
  ready :: "bool option"
  pics :: "rlp nullable option"
  orders :: "js_value nullable option"
  answer :: "answer_value option"

fun as_value :: "rlp \<Rightarrow> js_value" where
  "as_value (RBytes bs) = JBuffer bs"
| "as_value (RList xs) = JArray (map as_value xs)"

text \<open>
  \<^verbatim>\<open>x[0] || 0\<close>: the first byte of a Buffer, the first item of an array (an object,
  hence truthy), and 0 when there is none or when the byte is 0.
\<close>

fun first_or_zero :: "rlp \<Rightarrow> js_value" where
  "first_or_zero (RBytes []) = JNum 0"
| "first_or_zero (RBytes (b # bs)) = JNum b"
| "first_or_zero (RList []) = JNum 0"
| "first_or_zero (RList (y # ys)) = as_value y"

text \<open>
  \<^verbatim>\<open>order.map(x => x[0] || 0)\<close>: on an array, item by item; on a Buffer the
  callback gets the bytes as numbers, \<^verbatim>\<open>x[0]\<close> is \<^verbatim>\<open>undefined\<close> and the result is
  a Buffer of zeros.
\<close>

fun map_order :: "rlp \<Rightarrow> js_value" where
  "map_order (RList xs) = JArray (map first_or_zero xs)"
| "map_order (RBytes bs) = JBuffer (map (\<lambda>x. 0) bs)"

text \<open>
  \<^verbatim>\<open>decodedFlip[1].map(order => order.map(...))\<close>: on a non-empty Buffer the
  callback gets a number, which has no \<^verbatim>\<open>map\<close>.
\<close>

fun map_orders :: "rlp \<Rightarrow> js_error + js_value" where
  "map_orders (RList os) = Inr (JArray (map map_order os))"
| "map_orders (RBytes []) = Inr (JBuffer [])"
| "map_orders (RBytes (b # bs)) = Inl TypeError"

text \<open>
  The body of the \<^verbatim>\<open>if (hex)\<close> branch once the record is decoded. When
  \<^verbatim>\<open>decodedFlip\<close> is a Buffer or an array of fewer than two items,
  \<^verbatim>\<open>decodedFlip[1]\<close> is a number or \<^verbatim>\<open>undefined\<close> and calling its \<^verbatim>\<open>map\<close> throws.
\<close>

definition decodedFields :: "rlp \<Rightarrow> js_error + rlp \<times> js_value" where
  "decodedFields decodedFlip =
     (case decodedFlip of
        RList (p # f # rest) \<Rightarrow>
          (case map_orders f of Inl e \<Rightarrow> Inl e | Inr os \<Rightarrow> Inr (p, os))
      | _ \<Rightarrow> Inl TypeError)"

text \<open>
  \<^verbatim>\<open>decode(fromHexString(hex.hex.substring(2)))\<close>. The decoder of the \<^verbatim>\<open>rlp\<close>
  package is not part of this repository: it is the parameter \<open>decode\<close>, a
  function from the bytes to the decoded item or to the exception it throws.
\<close>

definition decodeRecord ::
  "(nat list \<Rightarrow> js_error + rlp) \<Rightarrow> hexEntry \<Rightarrow> js_error + rlp" where
  "decodeRecord decode x =
     (case fromHexString (drop 2 (hex x)) of
        Inl e \<Rightarrow> Inl e
      | Inr bytes \<Rightarrow> decode bytes)"

text \<open>The callback of \<^verbatim>\<open>hashes.map\<close> in \<^verbatim>\<open>decodeFlips\<close>.\<close>

definition decodeFlip ::
  "(nat list \<Rightarrow> js_error + rlp) \<Rightarrow> hexEntry list \<Rightarrow> hashEntry \<Rightarrow> js_error + flip" where
  "decodeFlip decode hexes h =
     (case find (\<lambda>x. hex_hash x = req_hash h) hexes of
        Some x \<Rightarrow>
          (case decodeRecord decode x of
             Inl e \<Rightarrow> Inl e
           | Inr decodedFlip \<Rightarrow>
               (case decodedFields decodedFlip of
                  Inl e \<Rightarrow> Inl e
                | Inr (p, os) \<Rightarrow>
                    Inr \<lparr>hash = Some (req_hash h), ready = Some (req_ready h),
                         pics = Some (Val p), orders = Some (Val os),
                         answer = Some NullAnswer\<rparr>))
      | None \<Rightarrow>
          Inr \<lparr>hash = Some (req_hash h), ready = Some (req_ready h),
               pics = Some Null, orders = Some Null, answer = Some NullAnswer\<rparr>)"

text \<open>
  \<^verbatim>\<open>hashes.map(...)\<close>: the callback runs on the entries from left to right and the
  first exception ends the whole call.
\<close>

fun decodeFlips ::
  "(nat list \<Rightarrow> js_error + rlp) \<Rightarrow> hashEntry list \<Rightarrow> hexEntry list \<Rightarrow> js_error + flip list" where
  "decodeFlips decode [] hexes = Inr []"
| "decodeFlips decode (h # hs) hexes =
     (case decodeFlip decode hexes h of
        Inl e \<Rightarrow> Inl e
      | Inr f \<Rightarrow>
          (case decodeFlips decode hs hexes of
             Inl e \<Rightarrow> Inl e
           | Inr fs \<Rightarrow> Inr (f # fs)))"

section \<open>The state and its reducer\<close>

definition hasAnswer :: "answer_value \<Rightarrow> bool" where
  "hasAnswer a = (case a of Num n \<Rightarrow> True | _ \<Rightarrow> False)"

text \<open>\<^verbatim>\<open>x.answer\<close>: \<^verbatim>\<open>undefined\<close> when the object has no such key.\<close>

definition answer_of :: "flip \<Rightarrow> answer_value" where
  "answer_of x = (case answer x of None \<Rightarrow> Undefined | Some v \<Rightarrow> v)"

record payloadEntry =
  p_answer :: int
  easy :: bool

text \<open>
  The state of \<^verbatim>\<open>useReducer\<close>. \<open>epoch = None\<close> is \<^verbatim>\<open>null\<close>, \<open>error = None\<close> is a
  state without the \<^verbatim>\<open>error\<close> key. \<open>currentIndex\<close> is an integer: \<^verbatim>\<open>PICK\<close> stores
  whatever index the action carries.
\<close>

record validationState =
  shortAnswers :: "payloadEntry list"
  longAnswers :: "payloadEntry list"
  epoch :: "int option"
  shortAnswersSubmitted :: bool
  longAnswersSubmitted :: bool
  hashes :: "hashEntry list"
  flips :: "flip list"
  loading :: bool
  currentIndex :: int
  canSubmit :: bool
  error :: "string option"

text \<open>The spread \<^verbatim>\<open>...initialCeremonyState\<close> at the end of an object literal.\<close>

definition initialCeremonyState :: "validationState \<Rightarrow> validationState" where
  "initialCeremonyState st =
     st\<lparr>hashes := [], flips := [], loading := True, currentIndex := 0, canSubmit := False\<rparr>"

definition initialState :: validationState where
  "initialState =
     \<lparr>shortAnswers = [], longAnswers = [], epoch = None,
      shortAnswersSubmitted = False, longAnswersSubmitted = False,
      hashes = [], flips = [], loading = True, currentIndex = 0, canSubmit = False,
      error = None\<rparr>"

text \<open>
  The snapshot that \<^verbatim>\<open>db.getValidation()\<close> returns: an object with any of the keys
  of the state. The spread \<^verbatim>\<open>{...state, ...action.validation}\<close> takes each key from
  the snapshot when it is there and from the state otherwise.
\<close>

record validation =
  v_shortAnswers :: "payloadEntry list option"
  v_longAnswers :: "payloadEntry list option"
  v_epoch :: "int option option"
  v_shortAnswersSubmitted :: "bool option"
  v_longAnswersSubmitted :: "bool option"
  v_hashes :: "hashEntry list option"
  v_flips :: "flip list option"
  v_loading :: "bool option"
  v_currentIndex :: "int option"
  v_canSubmit :: "bool option"
  v_error :: "string option"

definition spread_validation :: "validationState \<Rightarrow> validation \<Rightarrow> validationState" where
  "spread_validation st v =
     \<lparr>shortAnswers = (case v_shortAnswers v of None \<Rightarrow> shortAnswers st | Some x \<Rightarrow> x),
      longAnswers = (case v_longAnswers v of None \<Rightarrow> longAnswers st | Some x \<Rightarrow> x),
      epoch = (case v_epoch v of None \<Rightarrow> epoch st | Some x \<Rightarrow> x),
      shortAnswersSubmitted =
        (case v_shortAnswersSubmitted v of None \<Rightarrow> shortAnswersSubmitted st | Some x \<Rightarrow> x),
      longAnswersSubmitted =
        (case v_longAnswersSubmitted v of None \<Rightarrow> longAnswersSubmitted st | Some x \<Rightarrow> x),
      hashes = (case v_hashes v of None \<Rightarrow> hashes st | Some x \<Rightarrow> x),
      flips = (case v_flips v of None \<Rightarrow> flips st | Some x \<Rightarrow> x),
      loading = (case v_loading v of None \<Rightarrow> loading st | Some x \<Rightarrow> x),
      currentIndex = (case v_currentIndex v of None \<Rightarrow> currentIndex st | Some x \<Rightarrow> x),
      canSubmit = (case v_canSubmit v of None \<Rightarrow> canSubmit st | Some x \<Rightarrow> x),
      error = (case v_error v of None \<Rightarrow> error st | Some x \<Rightarrow> Some x)\<rparr>"

text \<open>
  The actions, named by their \<^verbatim>\<open>type\<close> strings. \<open>UNHANDLED t\<close> is an action whose
  type \<open>t\<close> is none of the thirteen strings of the \<^verbatim>\<open>switch\<close>.
\<close>

datatype action =
    LOAD_VALIDATION validation
  | SUBMIT_SHORT_ANSWERS "payloadEntry list" int
  | SUBMIT_LONG_ANSWERS "payloadEntry list" int
  | RESET_EPOCH int
  | START_FETCH_FLIPS
  | FETCH_FLIPS_SUCCEEDED "hashEntry list" "hexEntry list"
  | FETCH_MISSING_FLIPS_SUCCEEDED "hexEntry list"
  | FETCH_FLIPS_FAILED string
  | PREV
  | NEXT
  | PICK int
  | ANSWER answer_value
  | REPORT_ABUSE
  | UNHANDLED string

text \<open>
  \<^verbatim>\<open>Array.prototype.slice\<close>: a negative bound counts from the end of the array, and
  both bounds are cut to the array. \<^verbatim>\<open>xs[i]\<close> is \<^verbatim>\<open>undefined\<close> (\<open>None\<close>) outside the
  array.
\<close>

definition relIndex :: "int \<Rightarrow> nat \<Rightarrow> nat" where
  "relIndex k len = (if k < 0 then nat (max (int len + k) 0) else min (nat k) len)"

definition slice :: "'a list \<Rightarrow> int \<Rightarrow> int \<Rightarrow> 'a list" where
  "slice xs start final =
     (let k = relIndex start (length xs); e = relIndex final (length xs)
      in take (e - k) (drop k xs))"

definition slice_from :: "'a list \<Rightarrow> int \<Rightarrow> 'a list" where
  "slice_from xs start = drop (relIndex start (length xs)) xs"

definition at_index :: "'a list \<Rightarrow> int \<Rightarrow> 'a option" where
  "at_index xs i = (if 0 \<le> i \<and> i < int (length xs) then Some (xs ! nat i) else None)"

text \<open>\<^verbatim>\<open>{...x, answer: v}\<close>, where spreading \<^verbatim>\<open>undefined\<close> adds no key.\<close>

definition with_answer :: "flip option \<Rightarrow> answer_value \<Rightarrow> flip" where
  "with_answer x v =
     (case x of
        None \<Rightarrow> \<lparr>hash = None, ready = None, pics = None, orders = None, answer = Some v\<rparr>
      | Some f \<Rightarrow> f\<lparr>answer := Some v\<rparr>)"

text \<open>The array literal of the \<^verbatim>\<open>ANSWER\<close> and \<^verbatim>\<open>REPORT_ABUSE\<close> cases.\<close>

definition answered :: "validationState \<Rightarrow> answer_value \<Rightarrow> flip list" where
  "answered st v =
     slice (flips st) 0 (currentIndex st)
     @ [with_answer (at_index (flips st) (currentIndex st)) v]
     @ slice_from (flips st) (currentIndex st + 1)"

definition everyHasAnswer :: "flip list \<Rightarrow> bool" where
  "everyHasAnswer fs = list_all hasAnswer (map answer_of fs)"

definition someHasAnswer :: "flip list \<Rightarrow> bool" where
  "someHasAnswer fs = list_ex hasAnswer (map answer_of fs)"

fun validationReducer ::
  "(nat list \<Rightarrow> js_error + rlp) \<Rightarrow> validationState \<Rightarrow> action \<Rightarrow> js_error + validationState" where
  "validationReducer decode st (LOAD_VALIDATION v) = Inr (spread_validation st v)"
| "validationReducer decode st (SUBMIT_SHORT_ANSWERS answers e) =
     Inr (initialCeremonyState
            (st\<lparr>shortAnswers := answers, epoch := Some e, shortAnswersSubmitted := True\<rparr>))"
| "validationReducer decode st (SUBMIT_LONG_ANSWERS answers e) =
     Inr (initialCeremonyState
            (st\<lparr>longAnswers := answers, epoch := Some e, longAnswersSubmitted := True\<rparr>))"
| "validationReducer decode st (RESET_EPOCH e) =
     Inr (initialCeremonyState
            (st\<lparr>shortAnswers := [], longAnswers := [], epoch := Some e,
                shortAnswersSubmitted := False, longAnswersSubmitted := False\<rparr>))"
| "validationReducer decode st START_FETCH_FLIPS = Inr (st\<lparr>loading := True\<rparr>)"
| "validationReducer decode st (FETCH_FLIPS_SUCCEEDED hs hexes) =
     (case decodeFlips decode hs hexes of
        Inl e \<Rightarrow> Inl e
      | Inr fs \<Rightarrow> Inr (st\<lparr>flips := fs, loading := False\<rparr>))"
| "validationReducer decode st (FETCH_MISSING_FLIPS_SUCCEEDED hexes) =
     (case decodeFlips decode (hashes st) hexes of
        Inl e \<Rightarrow> Inl e
      | Inr fs \<Rightarrow> Inr (st\<lparr>flips := fs, loading := False\<rparr>))"
| "validationReducer decode st (FETCH_FLIPS_FAILED err) =
     Inr (st\<lparr>loading := True, error := Some err\<rparr>)"
| "validationReducer decode st PREV =
     Inr (st\<lparr>currentIndex := max (currentIndex st - 1) 0\<rparr>)"
| "validationReducer decode st NEXT =
     Inr (st\<lparr>currentIndex := min (currentIndex st + 1) (int (length (flips st)) - 1)\<rparr>)"
| "validationReducer decode st (PICK i) = Inr (st\<lparr>currentIndex := i\<rparr>)"
| "validationReducer decode st (ANSWER option) =
     (let fs = answered st option
      in Inr (st\<lparr>flips := fs, canSubmit := everyHasAnswer fs\<rparr>))"
| "validationReducer decode st REPORT_ABUSE =
     (let fs = answered st (Num AnswerType_Inappropriate)
      in Inr (st\<lparr>flips := fs,
                 currentIndex := min (currentIndex st + 1) (int (length (flips st)) - 1),
                 canSubmit := everyHasAnswer fs\<rparr>))"
| "validationReducer decode st (UNHANDLED t) = Inl (UnhandledActionType t)"

section \<open>Submitting the answers\<close>

definition prepareAnswers :: "flip list \<Rightarrow> payloadEntry list" where
  "prepareAnswers fs =
     map (\<lambda>flip. \<lparr>p_answer = (case answer_of flip of Num n \<Rightarrow> n | _ \<Rightarrow> 0), easy = False\<rparr>) fs"

text \<open>
  What a call of \<^verbatim>\<open>submitShortAnswers\<close> or \<^verbatim>\<open>submitLongAnswers\<close> does, in order: the
  call of the node, the write to the database, the dispatch. When the node
  rejects the call (\<open>accepted = False\<close>) the \<^verbatim>\<open>await\<close> throws and nothing follows.
\<close>

datatype effect =
    ApiSubmitShortAnswers "payloadEntry list" int int
  | ApiSubmitLongAnswers "payloadEntry list" int int
  | DbSetShortAnswers "payloadEntry list" int
  | DbSetLongAnswers "payloadEntry list" int
  | Dispatch action

definition submitShortAnswers :: "bool \<Rightarrow> flip list \<Rightarrow> int \<Rightarrow> effect list" where
  "submitShortAnswers accepted fs e =
     (let payload = prepareAnswers fs
      in ApiSubmitShortAnswers payload 0 0 #
         (if accepted
          then [DbSetShortAnswers payload e, Dispatch (SUBMIT_SHORT_ANSWERS payload e)]
          else []))"

definition submitLongAnswers :: "bool \<Rightarrow> flip list \<Rightarrow> int \<Rightarrow> effect list" where
  "submitLongAnswers accepted fs e =
     (let payload = prepareAnswers fs
      in ApiSubmitLongAnswers payload 0 0 #
         (if accepted
          then [DbSetLongAnswers payload e, Dispatch (SUBMIT_LONG_ANSWERS payload e)]
          else []))"

text \<open>
  Modelled from the spec: \<^verbatim>\<open>EpochPeriod\<close> and the value of \<^verbatim>\<open>useEpochState\<close> come from
  \<^verbatim>\<open>epoch-context.js\<close>, which is not among the sources; the spec gives the period
  as ShortSession, LongSession or another one, and the epoch as an integer.
\<close>

datatype epochPeriod = ShortSession | LongSession | OtherPeriod

record epochState =
  epoch_number :: int
  currentPeriod :: epochPeriod

text \<open>
  An entry of \<^verbatim>\<open>state.shortAnswers\<close> read as the \<^verbatim>\<open>flip\<close> argument of
  \<^verbatim>\<open>prepareAnswers\<close>, which looks at the \<^verbatim>\<open>answer\<close> key only.
\<close>

definition entry_as_flip :: "payloadEntry \<Rightarrow> flip" where
  "entry_as_flip p =
     \<lparr>hash = None, ready = None, pics = None, orders = None, answer = Some (Num (p_answer p))\<rparr>"

definition sendAnswers :: "bool \<Rightarrow> sessionType \<Rightarrow> validationState \<Rightarrow> epochState \<Rightarrow> effect list" where
  "sendAnswers accepted ty st ep =
     (case ty of
        Short \<Rightarrow> submitShortAnswers accepted (map entry_as_flip (shortAnswers st)) (epoch_number ep)
      | Long \<Rightarrow> submitLongAnswers accepted (map entry_as_flip (longAnswers st)) (epoch_number ep))"

text \<open>
  The third effect of \<^verbatim>\<open>ValidationProvider\<close>, run with the seconds of the timer,
  the value of \<^verbatim>\<open>useEpochState\<close> (\<open>None\<close> is \<^verbatim>\<open>null\<close>) and the state. The result is
  the list of effects it issues, empty when it sends nothing.
\<close>

definition submissionEffect ::
  "bool \<Rightarrow> int \<Rightarrow> epochState option \<Rightarrow> validationState \<Rightarrow> js_error + effect list" where
  "submissionEffect accepted seconds ep st =
     (if seconds = 1 then
        (let hasSomeAnswer = someHasAnswer (flips st)
         in case ep of
              None \<Rightarrow> Inl TypeError
            | Some e \<Rightarrow>
                if currentPeriod e = ShortSession \<and> shortAnswersSubmitted st \<and> hasSomeAnswer
                then Inr (sendAnswers accepted Short st e)
                else if currentPeriod e = LongSession \<and> longAnswersSubmitted st \<and> hasSomeAnswer
                then Inr (sendAnswers accepted Long st e)
                else Inr [])
      else Inr [])"

section \<open>A decoder for the examples\<close>

text \<open>
  Modelled from the spec: \<^verbatim>\<open>decode\<close> of the \<^verbatim>\<open>rlp\<close> package is not among the sources;
  the spec calls what it reads a length-prefixed binary record. The theorems
  below hold for every decoder. Where a theorem is evaluated at a concrete input,
  the decoder is \<open>rlp_decode\<close>: it reads the recursive length prefix encoding (a
  byte below 0x80 is itself; 0x80 to 0xb7 start a string of up to 55 bytes, 0xb8
  to 0xbf a longer one; 0xc0 to 0xf7 start a list whose items take up to 55
  bytes, 0xf8 to 0xff a longer one) and rejects an input that is cut short or has
  bytes left over. The first argument of \<open>rlp_item\<close> bounds the depth of the
  recursion.
\<close>

definition be_value :: "nat list \<Rightarrow> nat" where
  "be_value bs = foldl (\<lambda>a b. 256 * a + b) 0 bs"

fun rlp_item :: "nat \<Rightarrow> nat list \<Rightarrow> (rlp \<times> nat list) option"
  and rlp_items :: "nat \<Rightarrow> nat list \<Rightarrow> rlp list option" where
  "rlp_item 0 bs = None"
| "rlp_item (Suc n) [] = None"
| "rlp_item (Suc n) (b # bs) =
     (if b < 128 then Some (RBytes [b], bs)
      else if b < 184 then
        (let l = b - 128
         in if length bs < l then None else Some (RBytes (take l bs), drop l bs))
      else if b < 192 then
        (let ll = b - 183; l = be_value (take ll bs); rest = drop ll bs
         in if length bs < ll \<or> length rest < l then None
            else Some (RBytes (take l rest), drop l rest))
      else if b < 248 then
        (let l = b - 192
         in if length bs < l then None
            else (case rlp_items n (take l bs) of
                    None \<Rightarrow> None
                  | Some its \<Rightarrow> Some (RList its, drop l bs)))
      else
        (let ll = b - 247; l = be_value (take ll bs); rest = drop ll bs
         in if length bs < ll \<or> length rest < l then None
            else (case rlp_items n (take l rest) of
                    None \<Rightarrow> None
                  | Some its \<Rightarrow> Some (RList its, drop l rest))))"
| "rlp_items n [] = Some []"
| "rlp_items 0 (b # bs) = None"
| "rlp_items (Suc n) (b # bs) =
     (case rlp_item n (b # bs) of
        None \<Rightarrow> None
      | Some (it, rest) \<Rightarrow>
          (case rlp_items n rest of
             None \<Rightarrow> None
           | Some its \<Rightarrow> Some (it # its)))"

definition rlp_decode :: "nat list \<Rightarrow> js_error + rlp" where
  "rlp_decode bs =
     (case rlp_item (2 * length bs + 2) bs of
        Some (it, []) \<Rightarrow> Inr it
      | _ \<Rightarrow> Inl RlpError)"

section \<open>Notions used by the properties\<close>

text \<open>
  Dispatching a list of actions one after the other, as \<^verbatim>\<open>useReducer\<close> does; an
  exception of the reducer ends the run.
\<close>

fun dispatchAll ::
  "(nat list \<Rightarrow> js_error + rlp) \<Rightarrow> validationState \<Rightarrow> action list \<Rightarrow> js_error + validationState" where
  "dispatchAll decode st [] = Inr st"
| "dispatchAll decode st (a # as) =
     (case validationReducer decode st a of
        Inl e \<Rightarrow> Inl e
      | Inr st' \<Rightarrow> dispatchAll decode st' as)"

text \<open>
  The actions of a user who answers the \<open>n\<close> flips of a session: answering or
  reporting the current flip, and moving to another one.
\<close>

fun answering :: "nat \<Rightarrow> action \<Rightarrow> bool" where
  "answering n (ANSWER v) = True"
| "answering n REPORT_ABUSE = True"
| "answering n NEXT = True"
| "answering n PREV = True"
| "answering n (PICK i) = (0 \<le> i \<and> i < int n)"
| "answering n a = False"

text \<open>
  A state in the middle of a session: the cursor is on a flip and \<open>canSubmit\<close>
  tells whether the answer of every flip is a finite number.
\<close>

definition in_session :: "validationState \<Rightarrow> bool" where
  "in_session st =
     (0 \<le> currentIndex st \<and> currentIndex st < int (length (flips st))
      \<and> canSubmit st = (\<forall>f \<in> set (flips st). \<exists>n. answer f = Some (Num n)))"

text \<open>The content that \<^verbatim>\<open>hexes.find\<close> gives for an entry of the hash list.\<close>

definition matching :: "hexEntry list \<Rightarrow> hashEntry \<Rightarrow> hexEntry option" where
  "matching hexes h = find (\<lambda>x. hex_hash x = req_hash h) hexes"

text \<open>
  A content is malformed when the hex string has no byte, when the decoder rejects
  the bytes, or when the decoded item has not the two fields that
  \<^verbatim>\<open>decodeFlips\<close> reads.
\<close>

definition malformed :: "(nat list \<Rightarrow> js_error + rlp) \<Rightarrow> hexEntry \<Rightarrow> bool" where
  "malformed decode x =
     (case decodeRecord decode x of
        Inl e \<Rightarrow> True
      | Inr r \<Rightarrow> isl (decodedFields r))"













text \<open>
  States and inputs at which the properties are evaluated: a session of two
  flips whose content is not fetched yet, a flip object with nothing but an
  answer, and two hex entries of one well-formed record (the images \<^verbatim>\<open>["imgA"]\<close>
  with the orders \<^verbatim>\<open>[[0, 1]]\<close>).
\<close>

definition pending_flip :: "string \<Rightarrow> answer_value \<Rightarrow> flip" where
  "pending_flip k v =
     \<lparr>hash = Some k, ready = Some True, pics = Some Null, orders = Some Null, answer = Some v\<rparr>"

definition answer_only :: "answer_value \<Rightarrow> flip" where
  "answer_only v = \<lparr>hash = None, ready = None, pics = None, orders = None, answer = Some v\<rparr>"

definition two_flips :: validationState where
  "two_flips =
     initialState\<lparr>flips := [pending_flip ''a'' NullAnswer, pending_flip ''b'' NullAnswer],
                  loading := False\<rparr>"

definition sample_record :: rlp where
  "sample_record =
     RList [RList [RBytes [105, 109, 103, 65]], RList [RList [RBytes [], RBytes [1]]]]"

definition sample_hex :: "string \<Rightarrow> hexEntry" where
  "sample_hex k = \<lparr>hex_hash = k, hex = ''0xcac584696d6741c3c28001''\<rparr>"

definition sample_flip :: "string \<Rightarrow> bool \<Rightarrow> flip" where
  "sample_flip k r =
     \<lparr>hash = Some k, ready = Some r,
      pics = Some (Val (RList [RBytes [105, 109, 103, 65]])),
      orders = Some (Val (JArray [JArray [JNum 0, JNum 1]])),
      answer = Some NullAnswer\<rparr>"

section \<open>Array slices and answers\<close>

lemma slice_in_range: "0 \<le> i \<Longrightarrow> slice xs 0 i = take (nat i) xs"
  by (simp add: slice_def relIndex_def Let_def min_def)

lemma slice_from_nonneg: "0 \<le> i \<Longrightarrow> slice_from xs i = drop (nat i) xs"
  by (simp add: slice_from_def relIndex_def min_def)

lemma answered_in_range:
  assumes "0 \<le> currentIndex st" "currentIndex st < int (length (flips st))"
  shows "answered st v =
         (flips st)[nat (currentIndex st) := (flips st ! nat (currentIndex st))\<lparr>answer := Some v\<rparr>]"
proof -
  let ?i = "nat (currentIndex st)"
  have i: "?i < length (flips st)"
    using assms by simp
  have "answered st v =
        take ?i (flips st) @ [(flips st ! ?i)\<lparr>answer := Some v\<rparr>] @ drop (Suc ?i) (flips st)"
    using assms
    by (simp add: answered_def slice_in_range slice_from_nonneg at_index_def with_answer_def
        nat_add_distrib)
  also have "\<dots> = (flips st)[?i := (flips st ! ?i)\<lparr>answer := Some v\<rparr>]"
    using i by (simp add: upd_conv_take_nth_drop)
  finally show ?thesis .
qed

lemma answered_beyond:
  assumes "int (length (flips st)) \<le> currentIndex st"
  shows "answered st v =
         flips st @ [\<lparr>hash = None, ready = None, pics = None, orders = None, answer = Some v\<rparr>]"
  using assms
  by (simp add: answered_def slice_in_range slice_from_nonneg at_index_def with_answer_def)

lemma everyHasAnswer_iff: "everyHasAnswer fs = (\<forall>f \<in> set fs. hasAnswer (answer_of f))"
  by (simp add: everyHasAnswer_def list_all_iff)

lemma everyHasAnswer_update:
  assumes "i < length fs"
  shows "everyHasAnswer (fs[i := (fs ! i)\<lparr>answer := Some v\<rparr>]) =
         (hasAnswer v \<and> (\<forall>j < length fs. j \<noteq> i \<longrightarrow> hasAnswer (answer_of (fs ! j))))"
proof -
  have "everyHasAnswer (fs[i := (fs ! i)\<lparr>answer := Some v\<rparr>]) =
        (\<forall>j < length fs. hasAnswer (answer_of ((fs[i := (fs ! i)\<lparr>answer := Some v\<rparr>]) ! j)))"
    by (simp add: everyHasAnswer_iff all_set_conv_all_nth)
  also have "\<dots> = (hasAnswer v \<and> (\<forall>j < length fs. j \<noteq> i \<longrightarrow> hasAnswer (answer_of (fs ! j))))"
    using assms by (auto simp: nth_list_update answer_of_def)
  finally show ?thesis .
qed

lemma hasAnswer_number: "hasAnswer a = (\<exists>n. a = Num n)"
  by (cases a) (simp_all add: hasAnswer_def)

lemma answer_of_number: "(answer_of f = Num n) = (answer f = Some (Num n))"
  by (simp add: answer_of_def split: option.splits)

lemma everyHasAnswer_numbers:
  "everyHasAnswer fs = (\<forall>f \<in> set fs. \<exists>n. answer f = Some (Num n))"
  by (simp add: everyHasAnswer_iff hasAnswer_number answer_of_number)

lemma everyHasAnswer_update_numbers:
  assumes "i < length fs"
  shows "everyHasAnswer (fs[i := (fs ! i)\<lparr>answer := Some v\<rparr>]) =
         ((\<exists>n. v = Num n) \<and>
          (\<forall>j < length fs. j \<noteq> i \<longrightarrow> (\<exists>n. answer (fs ! j) = Some (Num n))))"
  using everyHasAnswer_update [OF assms, of v]
  by (simp add: hasAnswer_number answer_of_number)

lemma answering_step:
  assumes "in_session st" "answering (length (flips st)) a"
  shows "\<exists>st'. validationReducer decode st a = Inr st' \<and> in_session st'
           \<and> length (flips st') = length (flips st)"
  using assms
  by (cases a) (auto simp: in_session_def Let_def answered_in_range everyHasAnswer_numbers)

lemma answering_run:
  "in_session st \<Longrightarrow> list_all (answering (length (flips st))) evs \<Longrightarrow>
   \<exists>st'. dispatchAll decode st evs = Inr st' \<and> in_session st'
           \<and> length (flips st') = length (flips st)"
proof (induction evs arbitrary: st)
  case Nil
  then show ?case by simp
next
  case (Cons a evs)
  from Cons.prems obtain st1 where
    s: "validationReducer decode st a = Inr st1" "in_session st1"
       "length (flips st1) = length (flips st)"
    using answering_step [of st a decode] by auto
  with Cons.prems have "list_all (answering (length (flips st1))) evs"
    by simp
  from Cons.IH [OF s(2) this] s show ?case
    by auto
qed

section \<open>Failure of the decoder\<close>

lemma decodeFlip_malformed:
  "isl (decodeFlip decode hexes h) =
     (case matching hexes h of None \<Rightarrow> False | Some x \<Rightarrow> malformed decode x)"
  by (simp add: decodeFlip_def matching_def malformed_def
      split: option.splits sum.splits prod.splits)

lemma decodeFlips_fails_iff:
  "isl (decodeFlips decode hs hexes) =
     (\<exists>h \<in> set hs. case matching hexes h of None \<Rightarrow> False | Some x \<Rightarrow> malformed decode x)"
proof (induction hs)
  case Nil
  then show ?case by simp
next
  case (Cons h hs)
  then show ?case
    using decodeFlip_malformed [of decode hexes h]
    by (auto split: sum.splits)
qed



section \<open>The hex string read by the code\<close>







section \<open>The sample records\<close>

lemma sample_bytes:
  "fromHexString (drop 2 ''0xcac584696d6741c3c28001'') =
     Inr [202, 197, 132, 105, 109, 103, 65, 195, 194, 128, 1]"
  by (simp add: fromHexString_def parseInt16_def toUint8_def hexDigit_def digitsValue_def
      lineTerminator_def whiteSpace_def)

lemma sample_item:
  "rlp_decode [202, 197, 132, 105, 109, 103, 65, 195, 194, 128, 1] = Inr sample_record"
  unfolding sample_record_def by code_simp

lemma sample_decodes: "decodeRecord rlp_decode (sample_hex k) = Inr sample_record"
  using sample_bytes sample_item by (simp add: decodeRecord_def sample_hex_def)

lemma leftover_rejected:
  "decodeRecord rlp_decode \<lparr>hex_hash = k, hex = ''0x0102''\<rparr> = Inl RlpError"
proof -
  have "fromHexString (drop 2 ''0x0102'') = Inr [1, 2]"
    by (simp add: fromHexString_def parseInt16_def toUint8_def hexDigit_def digitsValue_def
        lineTerminator_def whiteSpace_def)
  moreover have "rlp_decode [1, 2] = Inl RlpError"
    by code_simp
  ultimately show ?thesis
    by (simp add: decodeRecord_def)
qed

lemma single_byte_decodes:
  "decodeRecord rlp_decode \<lparr>hex_hash = k, hex = ''0x05''\<rparr> = Inr (RBytes [5])"
proof -
  have "fromHexString (drop 2 ''0x05'') = Inr [5]"
    by (simp add: fromHexString_def parseInt16_def toUint8_def hexDigit_def digitsValue_def
        lineTerminator_def whiteSpace_def)
  moreover have "rlp_decode [5] = Inr (RBytes [5])"
    by code_simp
  ultimately show ?thesis
    by (simp add: decodeRecord_def)
qed



lemma sample_decodeFlip:
  "decodeFlip rlp_decode [sample_hex ''a''] \<lparr>req_hash = ''a'', req_ready = True\<rparr> =
     Inr (sample_flip ''a'' True)"
  using sample_decodes [of "''a''"]
  by (simp add: decodeFlip_def decodedFields_def sample_record_def sample_flip_def)
     (simp add: sample_hex_def)

section \<open>The submission effect\<close>

lemma submissionEffect_sends:
  assumes "submissionEffect accepted seconds (Some ep) st = Inr effs" "effs \<noteq> []"
  shows "seconds = 1 \<and> someHasAnswer (flips st)
         \<and> (currentPeriod ep = ShortSession \<and> shortAnswersSubmitted st
            \<or> currentPeriod ep = LongSession \<and> longAnswersSubmitted st)"
  using assms by (auto simp: submissionEffect_def Let_def split: if_splits)

text \<open>
  C1 (the code departs from the claim). The claim: on the tick with 1 second left,
  the short answers are submitted if and only if the period is the short session,
  \<open>shortAnswersSubmitted\<close> is false and some flip has an answer. The effect tests
  \<open>shortAnswersSubmitted\<close> without negation: in the short session, on that tick,
  with an answered flip and the flag still false, it issues nothing; with the
  flag already true it submits once more, and what it submits is built from the
  stored \<open>shortAnswers\<close>, not from the flips.
\<close>

theorem C1_flag_not_negated:
  "submissionEffect True 1 (Some \<lparr>epoch_number = 5, currentPeriod = ShortSession\<rparr>)
     (initialState\<lparr>flips := [pending_flip ''a'' (Num AnswerType_Left)]\<rparr>) = Inr []
   \<and> shortAnswersSubmitted initialState = False
   \<and> someHasAnswer [pending_flip ''a'' (Num AnswerType_Left)]
   \<and> submissionEffect True 1 (Some \<lparr>epoch_number = 5, currentPeriod = ShortSession\<rparr>)
       (initialState\<lparr>flips := [pending_flip ''a'' (Num AnswerType_Left)],
                     shortAnswers := [\<lparr>p_answer = 2, easy = False\<rparr>],
                     shortAnswersSubmitted := True\<rparr>) =
     Inr [ApiSubmitShortAnswers [\<lparr>p_answer = 2, easy = False\<rparr>] 0 0,
          DbSetShortAnswers [\<lparr>p_answer = 2, easy = False\<rparr>] 5,
          Dispatch (SUBMIT_SHORT_ANSWERS [\<lparr>p_answer = 2, easy = False\<rparr>] 5)]"
  by (simp add: submissionEffect_def initialState_def someHasAnswer_def pending_flip_def
      answer_of_def hasAnswer_def sendAnswers_def submitShortAnswers_def prepareAnswers_def
      entry_as_flip_def Let_def)

section \<open>Moving the cursor\<close>

text \<open>
  C2 as stated fails: the claim says that on the empty list of flips, with the
  cursor at 0, \<^verbatim>\<open>NEXT\<close> leaves the cursor at 0. In the initial state the list is
  empty, the cursor is 0, and \<^verbatim>\<open>NEXT\<close> yields min(1, -1) = -1.
\<close>

theorem C2_next_on_empty_counterexample:
  "flips initialState = [] \<and> currentIndex initialState = 0
   \<and> map_sum id currentIndex (validationReducer rlp_decode initialState NEXT) = Inr (- 1)"
  by (simp add: initialState_def)

text \<open>
  C2, amended. \<^verbatim>\<open>PREV\<close> yields max(currentIndex - 1, 0) and \<^verbatim>\<open>NEXT\<close> yields
  min(currentIndex + 1, len(flips) - 1), nothing else changing. When the cursor is
  within [0, len(flips) - 1] before the step, it is within that range after it.
  On the empty list with the cursor at 0, \<^verbatim>\<open>PREV\<close> leaves the state as it is.
\<close>

theorem C2_prev_next:
  "validationReducer decode st PREV = Inr (st\<lparr>currentIndex := max (currentIndex st - 1) 0\<rparr>)
   \<and> validationReducer decode st NEXT =
       Inr (st\<lparr>currentIndex := min (currentIndex st + 1) (int (length (flips st)) - 1)\<rparr>)
   \<and> (0 \<le> currentIndex st \<and> currentIndex st < int (length (flips st)) \<longrightarrow>
        (\<forall>a \<in> {PREV, NEXT}. \<exists>st'. validationReducer decode st a = Inr st'
            \<and> flips st' = flips st
            \<and> 0 \<le> currentIndex st' \<and> currentIndex st' \<le> int (length (flips st')) - 1))
   \<and> (flips st = [] \<and> currentIndex st = 0 \<longrightarrow> validationReducer decode st PREV = Inr st)"
  by auto

theorem C2_prev_next_witness:
  "0 \<le> currentIndex (two_flips\<lparr>currentIndex := 1\<rparr>)
   \<and> currentIndex (two_flips\<lparr>currentIndex := 1\<rparr>) < int (length (flips (two_flips\<lparr>currentIndex := 1\<rparr>)))
   \<and> validationReducer rlp_decode (two_flips\<lparr>currentIndex := 1\<rparr>) PREV = Inr two_flips
   \<and> validationReducer rlp_decode (two_flips\<lparr>currentIndex := 1\<rparr>) NEXT =
       Inr (two_flips\<lparr>currentIndex := 1\<rparr>)
   \<and> flips initialState = [] \<and> currentIndex initialState = 0
   \<and> validationReducer rlp_decode initialState PREV = Inr initialState"
  using C2_prev_next [of rlp_decode "two_flips\<lparr>currentIndex := 1\<rparr>"]
    C2_prev_next [of rlp_decode initialState]
  by (simp add: two_flips_def initialState_def)

section \<open>Decoding the flips\<close>

text \<open>
  C3 as stated fails: the claim says that a malformed record fails alone, the
  other flips of the batch being decoded and the flip of the malformed record
  left unready. Here the record of flip a has a byte left over and the record of
  flip b is well formed: the call returns no flips at all, although flip b alone
  decodes.
\<close>

theorem C3_isolation_counterexample:
  "decodeFlips rlp_decode
     [\<lparr>req_hash = ''a'', req_ready = True\<rparr>, \<lparr>req_hash = ''b'', req_ready = True\<rparr>]
     [\<lparr>hex_hash = ''a'', hex = ''0x0102''\<rparr>, sample_hex ''b''] = Inl RlpError
   \<and> decodeFlips rlp_decode
       [\<lparr>req_hash = ''b'', req_ready = True\<rparr>]
       [\<lparr>hex_hash = ''a'', hex = ''0x0102''\<rparr>, sample_hex ''b''] = Inr [sample_flip ''b'' True]"
  using sample_decodes [of "''b''"]
  by (simp add: decodeFlip_def leftover_rejected decodedFields_def sample_record_def
      sample_flip_def)
     (simp add: sample_hex_def)

text \<open>
  C3, amended. When the content matching some entry of the hash list holds a
  malformed record, the whole call of \<^verbatim>\<open>decodeFlips\<close> fails with an exception: no
  flip of the batch is returned, so no default \<^verbatim>\<open>pics\<close> or \<^verbatim>\<open>orders\<close> are put in
  its place, and the \<^verbatim>\<open>FETCH_FLIPS_SUCCEEDED\<close> step of the reducer fails with the
  same exception instead of giving a state.
\<close>

theorem C3_malformed_record_fails_batch:
  assumes "h \<in> set hs" "matching hexes h = Some x" "malformed decode x"
  shows "\<exists>e. decodeFlips decode hs hexes = Inl e
           \<and> validationReducer decode st (FETCH_FLIPS_SUCCEEDED hs hexes) = Inl e"
proof -
  from assms have "isl (decodeFlips decode hs hexes)"
    unfolding decodeFlips_fails_iff by force
  then obtain e where "decodeFlips decode hs hexes = Inl e"
    by (cases "decodeFlips decode hs hexes") simp_all
  then show ?thesis
    by simp
qed

theorem C3_malformed_record_fails_batch_witness:
  "\<lparr>req_hash = ''a'', req_ready = True\<rparr>
     \<in> set [\<lparr>req_hash = ''b'', req_ready = True\<rparr>, \<lparr>req_hash = ''a'', req_ready = True\<rparr>]
   \<and> matching [\<lparr>hex_hash = ''a'', hex = ''0x05''\<rparr>, sample_hex ''b'']
        \<lparr>req_hash = ''a'', req_ready = True\<rparr> = Some \<lparr>hex_hash = ''a'', hex = ''0x05''\<rparr>
   \<and> malformed rlp_decode \<lparr>hex_hash = ''a'', hex = ''0x05''\<rparr>
   \<and> (\<exists>e. decodeFlips rlp_decode
            [\<lparr>req_hash = ''b'', req_ready = True\<rparr>, \<lparr>req_hash = ''a'', req_ready = True\<rparr>]
            [\<lparr>hex_hash = ''a'', hex = ''0x05''\<rparr>, sample_hex ''b''] = Inl e
          \<and> validationReducer rlp_decode initialState
              (FETCH_FLIPS_SUCCEEDED
                [\<lparr>req_hash = ''b'', req_ready = True\<rparr>, \<lparr>req_hash = ''a'', req_ready = True\<rparr>]
                [\<lparr>hex_hash = ''a'', hex = ''0x05''\<rparr>, sample_hex ''b'']) = Inl e)"
proof -
  let ?a = "\<lparr>req_hash = ''a'', req_ready = True\<rparr>"
  let ?hs = "[\<lparr>req_hash = ''b'', req_ready = True\<rparr>, ?a]"
  let ?x = "\<lparr>hex_hash = ''a'', hex = ''0x05''\<rparr>"
  let ?hexes = "[?x, sample_hex ''b'']"
  have h1: "?a \<in> set ?hs"
    by simp
  have h2: "matching ?hexes ?a = Some ?x"
    by (simp add: matching_def)
  have h3: "malformed rlp_decode ?x"
    by (simp add: malformed_def single_byte_decodes decodedFields_def)
  show ?thesis
    using h1 h2 h3 C3_malformed_record_fails_batch [OF h1 h2 h3, of initialState]
    by blast
qed




section \<open>Submitting and resetting\<close>

text \<open>
  C5. For every list of flips the payload has one entry for each flip, in order,
  with \<open>easy\<close> false: the entry of a flip whose answer is a finite number \<open>n\<close> has
  answer \<open>n\<close>, and the entry of every other flip (no \<^verbatim>\<open>answer\<close> key, \<^verbatim>\<open>undefined\<close>,
  \<^verbatim>\<open>null\<close>, a number that is not finite) has answer 0; no flip is left out.
  Submitting the short answers sends that payload, stores it and dispatches it.
  Over the flips \<^verbatim>\<open>[{answer: Left}, {answer: None}, {answer: undefined}]\<close> the
  payload is \<^verbatim>\<open>[{answer: 1, easy: false}, {answer: 0, easy: false}, {answer: 0,
  easy: false}]\<close>. The \<^verbatim>\<open>SUBMIT_SHORT_ANSWERS\<close> step stores the payload in
  \<open>shortAnswers\<close>, sets \<open>shortAnswersSubmitted\<close>, records the epoch and puts
  \<open>hashes\<close>, \<open>flips\<close>, \<open>loading\<close>, \<open>currentIndex\<close> and \<open>canSubmit\<close> back to their
  initial values; \<open>longAnswers\<close> and \<open>longAnswersSubmitted\<close> (and \<open>error\<close>) stay as
  they are.
\<close>

theorem C5_submit_short_answers:
  "length (prepareAnswers fs) = length fs
   \<and> (\<forall>i < length fs.
        easy (prepareAnswers fs ! i) = False
        \<and> (\<forall>n. answer (fs ! i) = Some (Num n) \<longrightarrow> p_answer (prepareAnswers fs ! i) = n)
        \<and> ((\<forall>n. answer (fs ! i) \<noteq> Some (Num n)) \<longrightarrow> p_answer (prepareAnswers fs ! i) = 0))
   \<and> submitShortAnswers True fs e =
       [ApiSubmitShortAnswers (prepareAnswers fs) 0 0, DbSetShortAnswers (prepareAnswers fs) e,
        Dispatch (SUBMIT_SHORT_ANSWERS (prepareAnswers fs) e)]
   \<and> prepareAnswers
       [answer_only (Num AnswerType_Left), answer_only (Num AnswerType_None),
        answer_only Undefined] =
       [\<lparr>p_answer = 1, easy = False\<rparr>, \<lparr>p_answer = 0, easy = False\<rparr>,
        \<lparr>p_answer = 0, easy = False\<rparr>]
   \<and> validationReducer decode st (SUBMIT_SHORT_ANSWERS answers e) =
       Inr (st\<lparr>shortAnswers := answers, epoch := Some e, shortAnswersSubmitted := True,
               hashes := hashes initialState, flips := flips initialState,
               loading := loading initialState, currentIndex := currentIndex initialState,
               canSubmit := canSubmit initialState\<rparr>)
   \<and> longAnswers (st\<lparr>shortAnswers := answers, epoch := Some e, shortAnswersSubmitted := True,
               hashes := hashes initialState, flips := flips initialState,
               loading := loading initialState, currentIndex := currentIndex initialState,
               canSubmit := canSubmit initialState\<rparr>) = longAnswers st
   \<and> longAnswersSubmitted (st\<lparr>shortAnswers := answers, epoch := Some e,
               shortAnswersSubmitted := True,
               hashes := hashes initialState, flips := flips initialState,
               loading := loading initialState, currentIndex := currentIndex initialState,
               canSubmit := canSubmit initialState\<rparr>) = longAnswersSubmitted st
   \<and> hashes initialState = [] \<and> flips initialState = [] \<and> loading initialState = True
   \<and> currentIndex initialState = 0 \<and> canSubmit initialState = False"
proof -
  have entries: "\<forall>i < length fs.
        easy (prepareAnswers fs ! i) = False
        \<and> (\<forall>n. answer (fs ! i) = Some (Num n) \<longrightarrow> p_answer (prepareAnswers fs ! i) = n)
        \<and> ((\<forall>n. answer (fs ! i) \<noteq> Some (Num n)) \<longrightarrow> p_answer (prepareAnswers fs ! i) = 0)"
    by (auto simp: prepareAnswers_def answer_of_def split: option.splits answer_value.splits)
  have sent: "submitShortAnswers True fs e =
       [ApiSubmitShortAnswers (prepareAnswers fs) 0 0, DbSetShortAnswers (prepareAnswers fs) e,
        Dispatch (SUBMIT_SHORT_ANSWERS (prepareAnswers fs) e)]"
    by (simp add: submitShortAnswers_def Let_def)
  have three: "prepareAnswers
       [answer_only (Num AnswerType_Left), answer_only (Num AnswerType_None),
        answer_only Undefined] =
       [\<lparr>p_answer = 1, easy = False\<rparr>, \<lparr>p_answer = 0, easy = False\<rparr>,
        \<lparr>p_answer = 0, easy = False\<rparr>]"
    by (simp add: prepareAnswers_def answer_of_def answer_only_def AnswerType_Left_def
        AnswerType_None_def)
  have len: "length (prepareAnswers fs) = length fs"
    by (simp add: prepareAnswers_def)
  show ?thesis
    using len entries sent three
    by (simp add: initialCeremonyState_def initialState_def)
qed

theorem C5_submit_short_answers_witness:
  "(0::nat) < length [pending_flip ''a'' NullAnswer, answer_only (Num AnswerType_Right),
                      pending_flip ''c'' NonFinite]
   \<and> answer ([pending_flip ''a'' NullAnswer, answer_only (Num AnswerType_Right),
               pending_flip ''c'' NonFinite] ! 0) = Some NullAnswer
   \<and> p_answer (prepareAnswers [pending_flip ''a'' NullAnswer, answer_only (Num AnswerType_Right),
                                pending_flip ''c'' NonFinite] ! 0) = 0
   \<and> answer ([pending_flip ''a'' NullAnswer, answer_only (Num AnswerType_Right),
               pending_flip ''c'' NonFinite] ! 1) = Some (Num 2)
   \<and> p_answer (prepareAnswers [pending_flip ''a'' NullAnswer, answer_only (Num AnswerType_Right),
                                pending_flip ''c'' NonFinite] ! 1) = 2
   \<and> prepareAnswers [pending_flip ''a'' NullAnswer, answer_only (Num AnswerType_Right),
                      pending_flip ''c'' NonFinite] =
       [\<lparr>p_answer = 0, easy = False\<rparr>, \<lparr>p_answer = 2, easy = False\<rparr>,
        \<lparr>p_answer = 0, easy = False\<rparr>]"
  using C5_submit_short_answers [where fs = "[pending_flip ''a'' NullAnswer,
      answer_only (Num AnswerType_Right), pending_flip ''c'' NonFinite]"
      and e = 5 and decode = rlp_decode and st = initialState and answers = "[]"]
  by (simp add: prepareAnswers_def answer_of_def answer_only_def pending_flip_def
      AnswerType_Right_def)

text \<open>
  C7. For an epoch \<open>e\<close> other than the stored one, the \<^verbatim>\<open>RESET_EPOCH\<close> step empties
  \<open>shortAnswers\<close> and \<open>longAnswers\<close>, clears both submitted flags, stores \<open>e\<close> as
  the epoch and resets the fields of the ceremony: no hashes, no flips, loading,
  cursor 0, \<open>canSubmit\<close> false.
\<close>

theorem C7_reset_epoch:
  "epoch st \<noteq> Some e \<Longrightarrow>
   validationReducer decode st (RESET_EPOCH e) =
     Inr (st\<lparr>shortAnswers := [], longAnswers := [], epoch := Some e,
             shortAnswersSubmitted := False, longAnswersSubmitted := False,
             hashes := [], flips := [], loading := True, currentIndex := 0,
             canSubmit := False\<rparr>)"
  by (simp add: initialCeremonyState_def)

theorem C7_reset_epoch_witness:
  "epoch (two_flips\<lparr>epoch := Some 4, shortAnswers := [\<lparr>p_answer = 1, easy = False\<rparr>],
                    shortAnswersSubmitted := True\<rparr>) \<noteq> Some 5
   \<and> validationReducer rlp_decode
       (two_flips\<lparr>epoch := Some 4, shortAnswers := [\<lparr>p_answer = 1, easy = False\<rparr>],
                  shortAnswersSubmitted := True\<rparr>)
       (RESET_EPOCH 5) = Inr (initialState\<lparr>epoch := Some 5\<rparr>)"
  using C7_reset_epoch [of "two_flips\<lparr>epoch := Some 4,
      shortAnswers := [\<lparr>p_answer = 1, easy = False\<rparr>], shortAnswersSubmitted := True\<rparr>" 5 rlp_decode]
  by (simp add: two_flips_def initialState_def)

section \<open>Answering\<close>

text \<open>
  C6. An answer is defined when it is a finite number (\<open>Num n\<close>; the answer None,
  the number 0, is one), and not when it is \<^verbatim>\<open>undefined\<close>, \<^verbatim>\<open>null\<close>, \<^verbatim>\<open>NaN\<close> or an
  infinity. After an \<^verbatim>\<open>ANSWER\<close> step on a non-empty list of flips, \<open>canSubmit\<close> holds
  if and only if the answer of every flip of the new list is a finite number.
  With the cursor on a flip, the step replaces the answer of that flip and
  \<open>canSubmit\<close> becomes true exactly when the given option is a finite number and
  the answer of every other flip is one already, that is, when the last flip
  without an answer gets one. Along any run of answers, reports and moves of the
  cursor within a session, \<open>canSubmit\<close> keeps telling whether the answer of every
  flip is a finite number. After \<^verbatim>\<open>RESET_EPOCH\<close> or a submit step the flips are
  gone and \<open>canSubmit\<close> is false.
\<close>

theorem C6_canSubmit:
  "hasAnswer w = (\<exists>n. w = Num n)
   \<and> (flips st \<noteq> [] \<longrightarrow>
      (\<exists>st'. validationReducer decode st (ANSWER v) = Inr st'
         \<and> canSubmit st' = (\<forall>f \<in> set (flips st'). \<exists>n. answer f = Some (Num n))))
   \<and> (0 \<le> currentIndex st \<and> currentIndex st < int (length (flips st)) \<longrightarrow>
      (\<exists>st'. validationReducer decode st (ANSWER v) = Inr st'
         \<and> flips st' = (flips st)[nat (currentIndex st) :=
                                   (flips st ! nat (currentIndex st))\<lparr>answer := Some v\<rparr>]
         \<and> canSubmit st' =
             ((\<exists>n. v = Num n) \<and>
              (\<forall>j < length (flips st). j \<noteq> nat (currentIndex st) \<longrightarrow>
                   (\<exists>n. answer (flips st ! j) = Some (Num n))))))
   \<and> (in_session st \<and> list_all (answering (length (flips st))) evs \<longrightarrow>
      (\<exists>st'. dispatchAll decode st evs = Inr st'
         \<and> length (flips st') = length (flips st)
         \<and> canSubmit st' = (\<forall>f \<in> set (flips st'). \<exists>n. answer f = Some (Num n))))
   \<and> (a = RESET_EPOCH e \<or> a = SUBMIT_SHORT_ANSWERS answers e
        \<or> a = SUBMIT_LONG_ANSWERS answers e \<longrightarrow>
      (\<exists>st'. validationReducer decode st a = Inr st' \<and> flips st' = [] \<and> canSubmit st' = False))"
proof (intro conjI impI)
  show "hasAnswer w = (\<exists>n. w = Num n)"
    by (rule hasAnswer_number)
next
  show "\<exists>st'. validationReducer decode st (ANSWER v) = Inr st'
         \<and> canSubmit st' = (\<forall>f \<in> set (flips st'). \<exists>n. answer f = Some (Num n))"
    by (simp add: Let_def everyHasAnswer_numbers)
next
  assume r: "0 \<le> currentIndex st \<and> currentIndex st < int (length (flips st))"
  then have "nat (currentIndex st) < length (flips st)"
    by linarith
  from everyHasAnswer_update_numbers [OF this] r
  show "\<exists>st'. validationReducer decode st (ANSWER v) = Inr st'
         \<and> flips st' = (flips st)[nat (currentIndex st) :=
                                   (flips st ! nat (currentIndex st))\<lparr>answer := Some v\<rparr>]
         \<and> canSubmit st' =
             ((\<exists>n. v = Num n) \<and>
              (\<forall>j < length (flips st). j \<noteq> nat (currentIndex st) \<longrightarrow>
                   (\<exists>n. answer (flips st ! j) = Some (Num n))))"
    by (simp add: Let_def answered_in_range)
next
  assume "in_session st \<and> list_all (answering (length (flips st))) evs"
  then obtain st' where "dispatchAll decode st evs = Inr st'" "in_session st'"
      "length (flips st') = length (flips st)"
    using answering_run [of st evs decode] by blast
  then show "\<exists>st'. dispatchAll decode st evs = Inr st'
         \<and> length (flips st') = length (flips st)
         \<and> canSubmit st' = (\<forall>f \<in> set (flips st'). \<exists>n. answer f = Some (Num n))"
    by (simp add: in_session_def)
next
  assume "a = RESET_EPOCH e \<or> a = SUBMIT_SHORT_ANSWERS answers e
        \<or> a = SUBMIT_LONG_ANSWERS answers e"
  then show "\<exists>st'. validationReducer decode st a = Inr st' \<and> flips st' = [] \<and> canSubmit st' = False"
    by (auto simp: initialCeremonyState_def)
qed

theorem C6_canSubmit_witness:
  "flips two_flips \<noteq> []
   \<and> 0 \<le> currentIndex two_flips \<and> currentIndex two_flips < int (length (flips two_flips))
   \<and> in_session two_flips
   \<and> list_all (answering (length (flips two_flips)))
        [ANSWER (Num AnswerType_None), NEXT, ANSWER Undefined, ANSWER NonFinite,
         ANSWER (Num AnswerType_Right)]
   \<and> hasAnswer (Num AnswerType_None) = True
   \<and> hasAnswer Undefined = False \<and> hasAnswer NullAnswer = False \<and> hasAnswer NonFinite = False
   \<and> map_sum id canSubmit (validationReducer rlp_decode two_flips (ANSWER (Num AnswerType_None)))
       = Inr False
   \<and> map_sum id canSubmit
        (dispatchAll rlp_decode two_flips [ANSWER (Num AnswerType_None), NEXT, ANSWER Undefined])
       = Inr False
   \<and> map_sum id canSubmit
        (dispatchAll rlp_decode two_flips
           [ANSWER (Num AnswerType_None), NEXT, ANSWER Undefined, ANSWER NonFinite])
       = Inr False
   \<and> map_sum id canSubmit
        (dispatchAll rlp_decode two_flips
           [ANSWER (Num AnswerType_None), NEXT, ANSWER Undefined, ANSWER NonFinite,
            ANSWER (Num AnswerType_Right)])
       = Inr True
   \<and> map_sum id canSubmit (validationReducer rlp_decode two_flips (RESET_EPOCH 5)) = Inr False"
  using C6_canSubmit [where st = two_flips and decode = rlp_decode
      and v = "Num AnswerType_None" and w = "Num AnswerType_None"
      and evs = "[ANSWER (Num AnswerType_None), NEXT, ANSWER Undefined, ANSWER NonFinite,
         ANSWER (Num AnswerType_Right)]"
      and a = "RESET_EPOCH 5" and e = 5 and answers = "[]"]
    C6_canSubmit [where w = Undefined] C6_canSubmit [where w = NullAnswer]
    C6_canSubmit [where w = NonFinite]
  by (simp add: two_flips_def initialState_def in_session_def everyHasAnswer_def answer_of_def
      hasAnswer_def Let_def answered_def slice_def slice_from_def relIndex_def at_index_def
      with_answer_def initialCeremonyState_def pending_flip_def AnswerType_None_def
      AnswerType_Right_def)

text \<open>
  C10. An \<^verbatim>\<open>ANSWER\<close> step with the cursor at or beyond the end of the flips does not
  fail: it appends one object that has the \<^verbatim>\<open>answer\<close> key only, so the list is one
  longer. On the empty list with the cursor at 0 the new list is that single
  object and \<open>canSubmit\<close> is \<open>hasAnswer\<close> of the option.
\<close>

theorem C10_answer_beyond_flips:
  "(int (length (flips st)) \<le> currentIndex st \<longrightarrow>
      (\<exists>st'. validationReducer decode st (ANSWER option) = Inr st'
         \<and> flips st' = flips st @ [answer_only option]
         \<and> length (flips st') = length (flips st) + 1))
   \<and> (flips st = [] \<and> currentIndex st = 0 \<longrightarrow>
      validationReducer decode st (ANSWER option) =
        Inr (st\<lparr>flips := [answer_only option], canSubmit := hasAnswer option\<rparr>))"
  by (auto simp: Let_def answered_beyond everyHasAnswer_def answer_of_def answer_only_def)

theorem C10_answer_beyond_flips_witness:
  "int (length (flips (two_flips\<lparr>currentIndex := 5\<rparr>))) \<le> currentIndex (two_flips\<lparr>currentIndex := 5\<rparr>)
   \<and> validationReducer rlp_decode (two_flips\<lparr>currentIndex := 5\<rparr>) (ANSWER (Num 2)) =
       Inr (two_flips\<lparr>currentIndex := 5,
              flips := [pending_flip ''a'' NullAnswer, pending_flip ''b'' NullAnswer,
                        answer_only (Num 2)]\<rparr>)
   \<and> flips initialState = [] \<and> currentIndex initialState = 0
   \<and> validationReducer rlp_decode initialState (ANSWER NullAnswer) =
       Inr (initialState\<lparr>flips := [answer_only NullAnswer]\<rparr>)"
  using C10_answer_beyond_flips [of "two_flips\<lparr>currentIndex := 5\<rparr>" rlp_decode "Num 2"]
    C10_answer_beyond_flips [of initialState rlp_decode NullAnswer]
  by (simp add: two_flips_def initialState_def everyHasAnswer_def answer_of_def
      hasAnswer_def Let_def answered_def slice_def slice_from_def relIndex_def at_index_def
      with_answer_def pending_flip_def answer_only_def)

section \<open>Failures of the reducer and the frame of a fetch\<close>

text \<open>
  C8 as stated fails: the claim says that a \<^verbatim>\<open>PICK\<close> whose index is out of range
  makes the reducer fail. In the initial state there is no flip, so every index
  is out of range, and \<^verbatim>\<open>PICK\<close> with index 7 gives a state whose cursor is 7.
\<close>

theorem C8_pick_out_of_range_counterexample:
  "flips initialState = []
   \<and> validationReducer rlp_decode initialState (PICK 7) = Inr (initialState\<lparr>currentIndex := 7\<rparr>)"
  by (simp add: initialState_def)

text \<open>
  C8, amended. The reducer fails exactly on an action of an unhandled type, with
  the error that names the type, and on a \<^verbatim>\<open>FETCH_FLIPS_SUCCEEDED\<close> or
  \<^verbatim>\<open>FETCH_MISSING_FLIPS_SUCCEEDED\<close> action whose content \<^verbatim>\<open>decodeFlips\<close> fails on. Every
  other action gives a next state; \<^verbatim>\<open>PICK\<close> stores the index it is given, in range
  or not.
\<close>

theorem C8_reducer_failures:
  "isl (validationReducer decode st a) =
     (case a of
        UNHANDLED t \<Rightarrow> True
      | FETCH_FLIPS_SUCCEEDED hs hexes \<Rightarrow> isl (decodeFlips decode hs hexes)
      | FETCH_MISSING_FLIPS_SUCCEEDED hexes \<Rightarrow> isl (decodeFlips decode (hashes st) hexes)
      | _ \<Rightarrow> False)
   \<and> validationReducer decode st (UNHANDLED t) = Inl (UnhandledActionType t)
   \<and> validationReducer decode st (PICK i) = Inr (st\<lparr>currentIndex := i\<rparr>)"
  by (cases a) (simp_all add: Let_def split: sum.splits)

text \<open>
  C9. When the content decodes, the \<^verbatim>\<open>FETCH_FLIPS_SUCCEEDED\<close> step changes \<open>flips\<close>
  (to the decoded flips of the hashes of the action) and \<open>loading\<close> (to false) and
  nothing else: the \<open>hashes\<close> of the state stay as they were. A following
  \<^verbatim>\<open>FETCH_MISSING_FLIPS_SUCCEEDED\<close> step decodes against those hashes of the state,
  not against the hashes of the earlier action.
\<close>

theorem C9_fetch_frame:
  "decodeFlips decode hs hexes = Inr fs \<Longrightarrow>
   validationReducer decode st (FETCH_FLIPS_SUCCEEDED hs hexes) =
     Inr (st\<lparr>flips := fs, loading := False\<rparr>)
   \<and> hashes (st\<lparr>flips := fs, loading := False\<rparr>) = hashes st
   \<and> validationReducer decode (st\<lparr>flips := fs, loading := False\<rparr>)
       (FETCH_MISSING_FLIPS_SUCCEEDED hexes') =
       (case decodeFlips decode (hashes st) hexes' of
          Inl e \<Rightarrow> Inl e
        | Inr fs' \<Rightarrow> Inr (st\<lparr>flips := fs', loading := False\<rparr>))"
  by (simp split: sum.splits)

theorem C9_fetch_frame_witness:
  "decodeFlips rlp_decode [\<lparr>req_hash = ''a'', req_ready = True\<rparr>] [sample_hex ''a''] =
     Inr [sample_flip ''a'' True]
   \<and> validationReducer rlp_decode initialState
       (FETCH_FLIPS_SUCCEEDED [\<lparr>req_hash = ''a'', req_ready = True\<rparr>] [sample_hex ''a'']) =
     Inr (initialState\<lparr>flips := [sample_flip ''a'' True], loading := False\<rparr>)
   \<and> hashes (initialState\<lparr>flips := [sample_flip ''a'' True], loading := False\<rparr>) = []
   \<and> validationReducer rlp_decode
       (initialState\<lparr>flips := [sample_flip ''a'' True], loading := False\<rparr>)
       (FETCH_MISSING_FLIPS_SUCCEEDED [sample_hex ''a'']) =
     Inr (initialState\<lparr>flips := [], loading := False\<rparr>)"
proof -
  have d: "decodeFlips rlp_decode [\<lparr>req_hash = ''a'', req_ready = True\<rparr>] [sample_hex ''a''] =
           Inr [sample_flip ''a'' True]"
    by (simp add: sample_decodeFlip)
  have h: "hashes initialState = []"
    by (simp add: initialState_def)
  show ?thesis
    using d C9_fetch_frame [OF d, of initialState "[sample_hex ''a'']"]
    by (simp add: h)
qed

end
